theory Spec2Isabelle
  imports Main "HOL-Library.Word"
begin

unbundle bit_operations_syntax

section \<open>Security functions\<close>

text \<open>
  \<^verbatim>\<open>hash_password(password)\<close> is
  \<^verbatim>\<open>hashlib.sha256(password.encode()).hexdigest()\<close>.
  A Python \<^verbatim>\<open>str\<close> is modelled by a \<open>string\<close>: the text, read as the
  bytes of its UTF-8 form, so that \<^verbatim>\<open>encode()\<close> hands these bytes over.
  \<^verbatim>\<open>hashlib.sha256\<close> is the SHA-256 of FIPS 180-4, written out below on
  32-bit words: padding, the message schedule, sixty-four rounds per 64-byte block.
\<close>

type_synonym byte = "8 word"
type_synonym u32 = "32 word"

definition rotr :: "nat \<Rightarrow> u32 \<Rightarrow> u32" where
  "rotr n x = drop_bit n x OR push_bit (32 - n) x"

definition Ch :: "u32 \<Rightarrow> u32 \<Rightarrow> u32 \<Rightarrow> u32" where
  "Ch x y z = (x AND y) XOR (NOT x AND z)"

definition Maj :: "u32 \<Rightarrow> u32 \<Rightarrow> u32 \<Rightarrow> u32" where
  "Maj x y z = (x AND y) XOR (x AND z) XOR (y AND z)"

definition Sigma0 :: "u32 \<Rightarrow> u32" where
  "Sigma0 x = rotr 2 x XOR rotr 13 x XOR rotr 22 x"

definition Sigma1 :: "u32 \<Rightarrow> u32" where
  "Sigma1 x = rotr 6 x XOR rotr 11 x XOR rotr 25 x"

definition sigma0 :: "u32 \<Rightarrow> u32" where
  "sigma0 x = rotr 7 x XOR rotr 18 x XOR drop_bit 3 x"

definition sigma1 :: "u32 \<Rightarrow> u32" where
  "sigma1 x = rotr 17 x XOR rotr 19 x XOR drop_bit 10 x"

definition K256 :: "u32 list" where
  "K256 =
    [0x428A2F98, 0x71374491, 0xB5C0FBCF, 0xE9B5DBA5, 0x3956C25B, 0x59F111F1, 0x923F82A4, 0xAB1C5ED5,
     0xD807AA98, 0x12835B01, 0x243185BE, 0x550C7DC3, 0x72BE5D74, 0x80DEB1FE, 0x9BDC06A7, 0xC19BF174,
     0xE49B69C1, 0xEFBE4786, 0x0FC19DC6, 0x240CA1CC, 0x2DE92C6F, 0x4A7484AA, 0x5CB0A9DC, 0x76F988DA,
     0x983E5152, 0xA831C66D, 0xB00327C8, 0xBF597FC7, 0xC6E00BF3, 0xD5A79147, 0x06CA6351, 0x14292967,
     0x27B70A85, 0x2E1B2138, 0x4D2C6DFC, 0x53380D13, 0x650A7354, 0x766A0ABB, 0x81C2C92E, 0x92722C85,
     0xA2BFE8A1, 0xA81A664B, 0xC24B8B70, 0xC76C51A3, 0xD192E819, 0xD6990624, 0xF40E3585, 0x106AA070,
     0x19A4C116, 0x1E376C08, 0x2748774C, 0x34B0BCB5, 0x391C0CB3, 0x4ED8AA4A, 0x5B9CCA4F, 0x682E6FF3,
     0x748F82EE, 0x78A5636F, 0x84C87814, 0x8CC70208, 0x90BEFFFA, 0xA4506CEB, 0xBEF9A3F7, 0xC67178F2]"

type_synonym hash_state = "u32 \<times> u32 \<times> u32 \<times> u32 \<times> u32 \<times> u32 \<times> u32 \<times> u32"

definition H256_init :: hash_state where
  "H256_init =
    (0x6A09E667, 0xBB67AE85, 0x3C6EF372, 0xA54FF53A, 0x510E527F, 0x9B05688C, 0x1F83D9AB, 0x5BE0CD19)"

text \<open>The message length in bits, as eight bytes, most significant first.\<close>

definition length_bytes :: "64 word \<Rightarrow> byte list" where
  "length_bytes n = map (\<lambda>i. ucast (drop_bit (8 * (7 - i)) n)) [0..<8]"

text \<open>
  Padding: the byte \<open>0x80\<close>, then zero bytes up to 56 modulo 64, then the length.
\<close>

definition pad :: "byte list \<Rightarrow> byte list" where
  "pad m =
     m @ [0x80] @ replicate ((119 - length m mod 64) mod 64) 0
       @ length_bytes (8 * of_nat (length m))"

definition be_word :: "byte list \<Rightarrow> u32" where
  "be_word bs = foldl (\<lambda>acc b. push_bit 8 acc OR ucast b) 0 bs"

definition block_words :: "byte list \<Rightarrow> u32 list" where
  "block_words blk = map (\<lambda>j. be_word (take 4 (drop (4 * j) blk))) [0..<16]"

definition blocks :: "byte list \<Rightarrow> byte list list" where
  "blocks bs = map (\<lambda>i. take 64 (drop (64 * i) bs)) [0..<length bs div 64]"

text \<open>\<open>schedule n w\<close> extends the message schedule \<open>w\<close> by \<open>n\<close> words.\<close>

fun schedule :: "nat \<Rightarrow> u32 list \<Rightarrow> u32 list" where
  "schedule 0 w = w"
| "schedule (Suc n) w =
     (let t = length w
      in schedule n
           (w @ [sigma1 (w ! (t - 2)) + w ! (t - 7) + sigma0 (w ! (t - 15)) + w ! (t - 16)]))"

definition round256 :: "hash_state \<Rightarrow> u32 \<times> u32 \<Rightarrow> hash_state" where
  "round256 s kw =
     (case s of (a, b, c, d, e, f, g, h) \<Rightarrow>
        let t1 = h + Sigma1 e + Ch e f g + fst kw + snd kw;
            t2 = Sigma0 a + Maj a b c
        in (t1 + t2, a, b, c, d + t1, e, f, g))"

definition add_state :: "hash_state \<Rightarrow> hash_state \<Rightarrow> hash_state" where
  "add_state s s' =
     (case s of (a, b, c, d, e, f, g, h) \<Rightarrow>
      case s' of (a', b', c', d', e', f', g', h') \<Rightarrow>
        (a + a', b + b', c + c', d + d', e + e', f + f', g + g', h + h'))"

definition compress :: "hash_state \<Rightarrow> byte list \<Rightarrow> hash_state" where
  "compress s blk = add_state s (foldl round256 s (zip K256 (schedule 48 (block_words blk))))"

definition sha256 :: "byte list \<Rightarrow> hash_state" where
  "sha256 m = foldl compress H256_init (blocks (pad m))"

definition hex_digit :: "nat \<Rightarrow> char" where
  "hex_digit n = ''0123456789abcdef'' ! (n mod 16)"

definition hex_word :: "u32 \<Rightarrow> string" where
  "hex_word x = map (\<lambda>i. hex_digit (unat (drop_bit (4 * (7 - i)) x AND 0xF))) [0..<8]"

definition state_words :: "hash_state \<Rightarrow> u32 list" where
  "state_words s = (case s of (a, b, c, d, e, f, g, h) \<Rightarrow> [a, b, c, d, e, f, g, h])"

definition hexdigest :: "hash_state \<Rightarrow> string" where
  "hexdigest s = concat (map hex_word (state_words s))"

definition encode :: "string \<Rightarrow> byte list" where
  "encode s = map (\<lambda>c. of_nat (of_char c)) s"

definition hash_password :: "string \<Rightarrow> string" where
  "hash_password password = hexdigest (sha256 (encode password))"

section \<open>S3 utility functions\<close>

text \<open>
  The dictionary of credentials maps a username to a password hash.
\<close>

type_synonym users = "string \<rightharpoonup> string"

text \<open>
  The body of the object at \<^verbatim>\<open>S3_USERS_KEY\<close>. \<^verbatim>\<open>json.dumps\<close> and
  \<^verbatim>\<open>json.loads\<close> belong to the standard library; they are modelled by what they
  do to a dictionary of strings: \<open>Json m\<close> stands for a text that
  \<^verbatim>\<open>json.loads\<close> reads as the dictionary \<open>m\<close>, the one \<^verbatim>\<open>json.dumps\<close>
  writes for \<open>m\<close> among them; \<open>Undecodable e\<close> stands for a body on which decoding
  or parsing raises the exception with message \<open>e\<close>.
\<close>

datatype document = Json users | Undecodable string

text \<open>
  An exception raised inside one of the two \<^verbatim>\<open>try\<close> blocks, with the text
  \<^verbatim>\<open>str(e)\<close> gives for it: the service's \<^verbatim>\<open>NoSuchKey\<close>, or any other
  \<^verbatim>\<open>Exception\<close>.
\<close>

datatype py_exception = NoSuchKey string | OtherException string

fun str :: "py_exception \<Rightarrow> string" where
  "str (NoSuchKey msg) = msg"
| "str (OtherException msg) = msg"

definition json_dumps :: "users \<Rightarrow> document" where
  "json_dumps users_data = Json users_data"

fun json_loads :: "document \<Rightarrow> py_exception + users" where
  "json_loads (Json users_data) = Inr users_data"
| "json_loads (Undecodable msg) = Inl (OtherException msg)"

datatype s3_request = GetObject | PutObject document

text \<open>
  What the program acts on: the object in the bucket (\<open>None\<close> while the key does not
  exist), how the storage service answers at the moment (\<open>get_fault = Some msg\<close>: a
  retrieval raises an exception other than \<^verbatim>\<open>NoSuchKey\<close>, with message
  \<open>msg\<close>; \<open>put_fault\<close> likewise for a write), the notices \<^verbatim>\<open>st.error\<close> has
  shown, and the requests sent to the service so far. The service may answer differently
  from one call to the next: that is a change of the two fault fields between calls, made
  by no function of the program.
\<close>

record world =
  s3_object :: "document option"
  get_fault :: "string option"
  put_fault :: "string option"
  notices :: "string list"
  requests :: "s3_request list"

definition no_such_key :: string where
  "no_such_key = ''An error occurred (NoSuchKey) when calling the GetObject operation: The specified key does not exist.''"

definition get_object :: "world \<Rightarrow> (py_exception + document) \<times> world" where
  "get_object w =
     (let w' = w\<lparr>requests := requests w @ [GetObject]\<rparr>
      in case get_fault w of
           Some msg \<Rightarrow> (Inl (OtherException msg), w')
         | None \<Rightarrow>
             (case s3_object w of
                None \<Rightarrow> (Inl (NoSuchKey no_such_key), w')
              | Some d \<Rightarrow> (Inr d, w')))"

definition put_object :: "document \<Rightarrow> world \<Rightarrow> (py_exception + unit) \<times> world" where
  "put_object d w =
     (let w' = w\<lparr>requests := requests w @ [PutObject d]\<rparr>
      in case put_fault w of
           Some msg \<Rightarrow> (Inl (OtherException msg), w')
         | None \<Rightarrow> (Inr (), w'\<lparr>s3_object := Some d\<rparr>))"

definition st_error :: "string \<Rightarrow> world \<Rightarrow> world" where
  "st_error msg w = w\<lparr>notices := notices w @ [msg]\<rparr>"

text \<open>
  The \<^verbatim>\<open>try\<close> block of \<^verbatim>\<open>get_users_from_s3\<close> fetches the object and parses
  it; \<^verbatim>\<open>except NoSuchKey\<close> comes first, \<^verbatim>\<open>except Exception\<close> takes every
  other exception of the block, a parse error included.
\<close>

definition get_users_from_s3 :: "world \<Rightarrow> users \<times> world" where
  "get_users_from_s3 w =
     (case get_object w of
        (Inr response, w') \<Rightarrow>
          (case json_loads response of
             Inr users_data \<Rightarrow> (users_data, w')
           | Inl (NoSuchKey msg) \<Rightarrow> (Map.empty, w')
           | Inl e \<Rightarrow> (Map.empty, st_error (''Error accessing S3: '' @ str e) w'))
      | (Inl (NoSuchKey msg), w') \<Rightarrow> (Map.empty, w')
      | (Inl e, w') \<Rightarrow> (Map.empty, st_error (''Error accessing S3: '' @ str e) w'))"

text \<open>
  In \<^verbatim>\<open>save_users_to_s3\<close> the one clause \<^verbatim>\<open>except Exception\<close> takes every
  exception of the block.
\<close>

definition save_users_to_s3 :: "users \<Rightarrow> world \<Rightarrow> bool \<times> world" where
  "save_users_to_s3 users_data w =
     (let users_json = json_dumps users_data
      in case put_object users_json w of
           (Inr _, w') \<Rightarrow> (True, w')
         | (Inl e, w') \<Rightarrow> (False, st_error (''Error saving to S3: '' @ str e) w'))"

section \<open>User management functions\<close>

definition save_user :: "string \<Rightarrow> string \<Rightarrow> world \<Rightarrow> bool \<times> world" where
  "save_user username password w =
     (case get_users_from_s3 w of
        (users, w') \<Rightarrow>
          if users username = None
          then save_users_to_s3 (users(username \<mapsto> hash_password password)) w'
          else (False, w'))"

definition authenticate :: "string \<Rightarrow> string \<Rightarrow> world \<Rightarrow> bool \<times> world" where
  "authenticate username password w =
     (case get_users_from_s3 w of
        (users, w') \<Rightarrow>
          let hashed_password = hash_password password
          in (users username \<noteq> None \<and> users username = Some hashed_password, w'))"

text \<open>
  Worlds to run the program in: a bucket without the credentials object; a bucket
  where \<open>alice\<close> is registered with the password \<open>pw1\<close>; the same bucket
  while the service fails on every request; a bucket with \<open>alice\<close> and \<open>bob\<close>
  registered while retrievals fail and writes are accepted; a bucket whose object does
  not parse.
\<close>

definition no_document :: world where
  "no_document =
     \<lparr>s3_object = None, get_fault = None, put_fault = None, notices = [], requests = []\<rparr>"

definition alice_registered :: world where
  "alice_registered =
     \<lparr>s3_object = Some (Json [''alice'' \<mapsto> hash_password ''pw1'']),
      get_fault = None, put_fault = None, notices = [], requests = []\<rparr>"

definition service_down :: world where
  "service_down =
     \<lparr>s3_object = Some (Json [''alice'' \<mapsto> hash_password ''pw1'']),
      get_fault = Some ''timeout'', put_fault = Some ''timeout'',
      notices = [], requests = []\<rparr>"

definition retrieval_down :: world where
  "retrieval_down =
     \<lparr>s3_object =
        Some (Json [''alice'' \<mapsto> hash_password ''pw1'', ''bob'' \<mapsto> hash_password ''pw2'']),
      get_fault = Some ''timeout'', put_fault = None, notices = [], requests = []\<rparr>"

definition unreadable_document :: world where
  "unreadable_document =
     \<lparr>s3_object = Some (Undecodable ''Expecting value''),
      get_fault = None, put_fault = None, notices = [], requests = []\<rparr>"

section \<open>The digest\<close>

lemma hex_digit_mem: "hex_digit n \<in> set ''0123456789abcdef''"
  unfolding hex_digit_def by (rule nth_mem) simp

lemma length_hex_word: "length (hex_word x) = 8"
  by (simp add: hex_word_def)

lemma set_hex_word: "set (hex_word x) \<subseteq> set ''0123456789abcdef''"
  unfolding hex_word_def using hex_digit_mem by auto

lemma length_state_words: "length (state_words s) = 8"
  by (simp add: state_words_def split: prod.splits)

lemma length_concat_hex_word: "length (concat (map hex_word xs)) = 8 * length xs"
  by (induction xs) (simp_all add: length_hex_word)

lemma length_hexdigest: "length (hexdigest s) = 64"
  by (simp add: hexdigest_def length_concat_hex_word length_state_words)

lemma set_hexdigest: "set (hexdigest s) \<subseteq> set ''0123456789abcdef''"
  unfolding hexdigest_def using set_hex_word by fastforce





lemma digest_pw1:
  "hash_password ''pw1'' = ''c592df4a86933b92addc9842402ddf198c638ea9be58916ee6e3734e1e3152f8''"
  by code_simp

lemma digest_pw2:
  "hash_password ''pw2'' = ''93915a0a4bf8f634cb1856494dd4304472ad46b9827f541f76b6761c49cc55b0''"
  by code_simp

lemma digest_pw3:
  "hash_password ''pw3'' = ''072aa9e9fb9d5162e465d3321530463caecd59b156676fe3071997cdc1017816''"
  by code_simp

text \<open>
  There are infinitely many passwords and finitely many digests, so two different
  passwords with the same digest exist (none is known).
\<close>

lemma hash_password_collision:
  "\<exists>p1 p2. p1 \<noteq> p2 \<and> hash_password p1 = hash_password p2"
proof -
  have "range hash_password \<subseteq> {xs. set xs \<subseteq> set ''0123456789abcdef'' \<and> length xs = 64}"
    unfolding hash_password_def using length_hexdigest set_hexdigest by blast
  moreover have "finite {xs. set xs \<subseteq> set ''0123456789abcdef'' \<and> length xs = 64}"
    by (rule finite_lists_length_eq) simp
  ultimately have "finite (range hash_password)"
    by (rule finite_subset)
  moreover have "infinite (UNIV :: string set)"
    by (rule infinite_UNIV_listI)
  ultimately have "\<not> inj hash_password"
    using finite_imageD by blast
  then show ?thesis
    unfolding inj_def by blast
qed

section \<open>Loading and saving\<close>

lemmas store_defs =
  get_users_from_s3_def save_users_to_s3_def get_object_def put_object_def
  st_error_def json_dumps_def Let_def

text \<open>What a load returns, read off the world.\<close>

lemma load_result:
  "fst (get_users_from_s3 w) =
     (case get_fault w of
        Some msg \<Rightarrow> Map.empty
      | None \<Rightarrow> (case s3_object w of Some (Json m) \<Rightarrow> m | _ \<Rightarrow> Map.empty))"
  by (simp add: store_defs split: option.splits document.splits)

lemma load_world:
  "s3_object (snd (get_users_from_s3 w)) = s3_object w"
  "get_fault (snd (get_users_from_s3 w)) = get_fault w"
  "put_fault (snd (get_users_from_s3 w)) = put_fault w"
  "requests (snd (get_users_from_s3 w)) = requests w @ [GetObject]"
  by (simp_all add: store_defs split: option.splits document.splits sum.splits
      py_exception.splits)

lemma load_again:
  "fst (get_users_from_s3 (snd (get_users_from_s3 w))) = fst (get_users_from_s3 w)"
  by (simp add: load_result load_world split: option.splits)

lemma save_result:
  "fst (save_users_to_s3 m w) = (put_fault w = None)"
  "s3_object (snd (save_users_to_s3 m w)) =
     (if put_fault w = None then Some (json_dumps m) else s3_object w)"
  "get_fault (snd (save_users_to_s3 m w)) = get_fault w"
  "put_fault (snd (save_users_to_s3 m w)) = put_fault w"
  "requests (snd (save_users_to_s3 m w)) = requests w @ [PutObject (json_dumps m)]"
  by (simp_all add: store_defs split: option.splits)

lemma save_user_unfold:
  "save_user u p w =
     (if fst (get_users_from_s3 w) u = None
      then save_users_to_s3 ((fst (get_users_from_s3 w))(u \<mapsto> hash_password p))
             (snd (get_users_from_s3 w))
      else (False, snd (get_users_from_s3 w)))"
  by (simp add: save_user_def split: prod.splits)

lemma authenticate_unfold:
  "authenticate u p w =
     (fst (get_users_from_s3 w) u = Some (hash_password p), snd (get_users_from_s3 w))"
  by (auto simp add: authenticate_def Let_def split: prod.splits)

lemmas run_defs =
  save_user_unfold authenticate_unfold load_result load_world save_result json_dumps_def
  no_document_def alice_registered_def service_down_def unreadable_document_def

section \<open>Registration and login\<close>

text \<open>
  C1. Round trip. When \<open>save_user u p\<close> returns \<open>True\<close> (which it does only after
  finding no \<open>u\<close> in the mapping it loaded, and after a write that succeeded), then
  \<open>authenticate u p\<close>, run in a world that holds the object \<open>save_user\<close> left and
  whose service answers the retrieval, returns \<open>True\<close>.
\<close>

theorem register_then_authenticate:
  assumes "fst (save_user u p w)"
    and "s3_object w' = s3_object (snd (save_user u p w))"
    and "get_fault w' = None"
  shows "fst (authenticate u p w')"
  using assms
  by (simp add: save_user_unfold authenticate_unfold load_result load_world save_result
      json_dumps_def split: if_splits)

theorem register_then_authenticate_witness:
  "fst (save_user ''alice'' ''pw1'' no_document)
   \<and> get_fault (snd (save_user ''alice'' ''pw1'' no_document)) = None
   \<and> fst (authenticate ''alice'' ''pw1'' (snd (save_user ''alice'' ''pw1'' no_document)))"
proof -
  have saved: "fst (save_user ''alice'' ''pw1'' no_document)"
    by (simp add: run_defs)
  have answers: "get_fault (snd (save_user ''alice'' ''pw1'' no_document)) = None"
    by (simp add: run_defs)
  show ?thesis
    using saved answers register_then_authenticate [OF saved refl answers] by simp
qed

text \<open>
  C2. Wrong password. \<open>authenticate\<close> compares digests, not passwords. After a
  \<open>save_user u p1\<close> that returned \<open>True\<close>, \<open>authenticate u p2\<close> returns \<open>False\<close>
  for every \<open>p2\<close> whose digest differs from that of \<open>p1\<close>, in any world that holds
  the object \<open>save_user\<close> left (whether or not the service answers the retrieval).
\<close>

theorem wrong_password_rejected:
  assumes "hash_password p2 \<noteq> hash_password p1"
    and "fst (save_user u p1 w)"
    and "s3_object w' = s3_object (snd (save_user u p1 w))"
  shows "\<not> fst (authenticate u p2 w')"
  using assms
  by (simp add: save_user_unfold authenticate_unfold load_result load_world save_result
      json_dumps_def split: if_splits option.splits)

theorem wrong_password_rejected_witness:
  "hash_password ''pw2'' \<noteq> hash_password ''pw1''
   \<and> fst (save_user ''alice'' ''pw1'' no_document)
   \<and> \<not> fst (authenticate ''alice'' ''pw2'' (snd (save_user ''alice'' ''pw1'' no_document)))"
proof -
  have differ: "hash_password ''pw2'' \<noteq> hash_password ''pw1''"
    by (simp add: digest_pw1 digest_pw2)
  have saved: "fst (save_user ''alice'' ''pw1'' no_document)"
    by (simp add: run_defs)
  show ?thesis
    using differ saved wrong_password_rejected [OF differ saved refl] by simp
qed

text \<open>
  The statement for all pairs of different passwords does not hold: with two different
  passwords of equal digest, the second one logs in after the first was registered.
\<close>

theorem wrong_password_accepted_on_collision:
  "\<not> (\<forall>u p1 p2 w. p1 \<noteq> p2 \<longrightarrow> fst (get_users_from_s3 w) u = None \<longrightarrow>
        fst (save_user u p1 w) \<longrightarrow>
        \<not> fst (authenticate u p2 (snd (save_user u p1 w))))"
proof
  assume claim: "\<forall>u p1 p2 w. p1 \<noteq> p2 \<longrightarrow> fst (get_users_from_s3 w) u = None \<longrightarrow>
        fst (save_user u p1 w) \<longrightarrow>
        \<not> fst (authenticate u p2 (snd (save_user u p1 w)))"
  obtain p1 p2 where different: "p1 \<noteq> p2" and same: "hash_password p1 = hash_password p2"
    using hash_password_collision by blast
  have absent: "fst (get_users_from_s3 no_document) ''alice'' = None"
    by (simp add: run_defs)
  have saved: "fst (save_user ''alice'' p1 no_document)"
    by (simp add: run_defs)
  have "fst (authenticate ''alice'' p2 (snd (save_user ''alice'' p1 no_document)))"
    using same by (simp add: run_defs)
  with claim different absent saved show False
    by blast
qed

text \<open>
  C3. Unknown user. When the mapping that \<open>get_users_from_s3\<close> returns has no entry
  for \<open>u\<close>, \<open>authenticate u p\<close> returns \<open>False\<close>, whatever \<open>p\<close> is.
\<close>

theorem unknown_user_rejected:
  "fst (get_users_from_s3 w) u = None \<Longrightarrow> \<not> fst (authenticate u p w)"
  by (simp add: authenticate_unfold)

theorem unknown_user_rejected_witness:
  "fst (get_users_from_s3 alice_registered) ''bob'' = None
   \<and> \<not> fst (authenticate ''bob'' ''anything'' alice_registered)"
proof -
  have unknown: "fst (get_users_from_s3 alice_registered) ''bob'' = None"
    by (simp add: run_defs)
  show ?thesis
    using unknown unknown_user_rejected [OF unknown] by simp
qed

text \<open>
  Duplicate registration while the retrieval is answered. When the mapping that
  \<open>get_users_from_s3\<close> returns already has an entry for \<open>u\<close>, \<open>save_user u p\<close>
  returns \<open>False\<close>, sends the one retrieval and no write, leaves the object as it was,
  and every password \<open>q\<close> authenticates \<open>u\<close> afterwards exactly when it did before.
\<close>

lemma duplicate_registration_rejected:
  assumes "fst (get_users_from_s3 w) u \<noteq> None"
  shows "\<not> fst (save_user u p w)
    \<and> s3_object (snd (save_user u p w)) = s3_object w
    \<and> requests (snd (save_user u p w)) = requests w @ [GetObject]
    \<and> fst (authenticate u q (snd (save_user u p w))) = fst (authenticate u q w)"
proof -
  have "save_user u p w = (False, snd (get_users_from_s3 w))"
    using assms by (auto simp add: save_user_unfold)
  then show ?thesis
    by (simp add: authenticate_unfold load_again load_world)
qed

lemma duplicate_registration_rejected_example:
  "fst (get_users_from_s3 alice_registered) ''alice'' \<noteq> None
   \<and> \<not> fst (save_user ''alice'' ''pw3'' alice_registered)
   \<and> s3_object (snd (save_user ''alice'' ''pw3'' alice_registered))
       = s3_object alice_registered
   \<and> fst (authenticate ''alice'' ''pw1'' (snd (save_user ''alice'' ''pw3'' alice_registered)))"
proof -
  have present: "fst (get_users_from_s3 alice_registered) ''alice'' \<noteq> None"
    by (simp add: run_defs)
  have before: "fst (authenticate ''alice'' ''pw1'' alice_registered)"
    by (simp add: run_defs)
  show ?thesis
    using present before
      duplicate_registration_rejected [OF present, of "''pw3''" "''pw1''"]
    by simp
qed

text \<open>
  C4. Duplicate registration: for a username already in the stored mapping,
  \<open>save_user\<close> is to return \<open>False\<close> and leave the mapping unchanged, so that the
  registered password still authenticates. The guard \<^verbatim>\<open>if username not in users\<close>
  does this only while the retrieval is answered. \<open>get_users_from_s3\<close> returns the
  empty mapping for a failed retrieval as it does for a missing object, and
  \<open>save_user\<close> cannot tell the two apart. In \<open>retrieval_down\<close> the object holds
  \<open>alice\<close> (password \<open>pw1\<close>) and \<open>bob\<close>, the retrieval fails and the write is
  accepted: \<open>save_user ''alice'' ''pw3''\<close> returns \<open>True\<close> and replaces the object by
  the single entry for \<open>alice\<close> with the digest of \<open>pw3\<close>. Once the service answers
  again, \<open>pw1\<close> no longer authenticates \<open>alice\<close>, \<open>pw3\<close> does, and \<open>bob\<close> is gone.
\<close>

theorem duplicate_registration_overwrites_after_failed_load:
  "s3_object retrieval_down =
     Some (Json [''alice'' \<mapsto> hash_password ''pw1'', ''bob'' \<mapsto> hash_password ''pw2''])
   \<and> fst (save_user ''alice'' ''pw3'' retrieval_down)
   \<and> requests (snd (save_user ''alice'' ''pw3'' retrieval_down)) =
       [GetObject, PutObject (Json [''alice'' \<mapsto> hash_password ''pw3''])]
   \<and> notices (snd (save_user ''alice'' ''pw3'' retrieval_down)) = [''Error accessing S3: timeout'']
   \<and> s3_object (snd (save_user ''alice'' ''pw3'' retrieval_down)) =
       Some (Json [''alice'' \<mapsto> hash_password ''pw3''])
   \<and> \<not> fst (authenticate ''alice'' ''pw1''
          ((snd (save_user ''alice'' ''pw3'' retrieval_down))\<lparr>get_fault := None\<rparr>))
   \<and> fst (authenticate ''alice'' ''pw3''
        ((snd (save_user ''alice'' ''pw3'' retrieval_down))\<lparr>get_fault := None\<rparr>))
   \<and> \<not> fst (authenticate ''bob'' ''pw2''
          ((snd (save_user ''alice'' ''pw3'' retrieval_down))\<lparr>get_fault := None\<rparr>))"
proof -
  have run: "save_user ''alice'' ''pw3'' retrieval_down =
      (True,
       \<lparr>s3_object = Some (Json [''alice'' \<mapsto> hash_password ''pw3'']),
        get_fault = Some ''timeout'', put_fault = None,
        notices = [''Error accessing S3: timeout''],
        requests = [GetObject, PutObject (Json [''alice'' \<mapsto> hash_password ''pw3''])]\<rparr>)"
    by (simp add: save_user_def store_defs retrieval_down_def)
  have differ: "hash_password ''pw3'' \<noteq> hash_password ''pw1''"
    by (simp add: digest_pw1 digest_pw3)
  have stored: "s3_object retrieval_down =
     Some (Json [''alice'' \<mapsto> hash_password ''pw1'', ''bob'' \<mapsto> hash_password ''pw2''])"
    by (simp add: retrieval_down_def)
  show ?thesis
    using differ stored by (simp add: run authenticate_unfold load_result)
qed



text \<open>
  C7. Empty store bootstrap. While the object does not exist and the service answers
  the retrieval (with \<^verbatim>\<open>NoSuchKey\<close>), \<open>get_users_from_s3\<close> returns the empty mapping
  and shows no notice; and \<open>save_user\<close>, when the service accepts its write, returns
  \<open>True\<close> and creates the object with the one entry for the new user.
\<close>

theorem empty_store_bootstrap:
  assumes "s3_object w = None" and "get_fault w = None"
  shows "get_users_from_s3 w = (Map.empty, w\<lparr>requests := requests w @ [GetObject]\<rparr>)
    \<and> (put_fault w = None \<longrightarrow>
         fst (save_user u p w)
         \<and> s3_object (snd (save_user u p w)) = Some (json_dumps [u \<mapsto> hash_password p]))"
  using assms
  by (simp add: save_user_def store_defs)

theorem empty_store_bootstrap_witness:
  "s3_object no_document = None \<and> get_fault no_document = None
   \<and> put_fault no_document = None
   \<and> fst (get_users_from_s3 no_document) = Map.empty
   \<and> notices (snd (get_users_from_s3 no_document)) = []
   \<and> fst (save_user ''alice'' ''pw1'' no_document)
   \<and> s3_object (snd (save_user ''alice'' ''pw1'' no_document)) =
       Some (Json [''alice'' \<mapsto> hash_password ''pw1''])"
proof -
  have missing: "s3_object no_document = None" and answers: "get_fault no_document = None"
    and accepts: "put_fault no_document = None"
    by (simp_all add: no_document_def)
  show ?thesis
    using missing answers accepts
      empty_store_bootstrap [OF missing answers, of "''alice''" "''pw1''"]
    by (simp add: json_dumps_def no_document_def)
qed

text \<open>
  C8. Storage failures. When the retrieval fails with an exception other than
  \<^verbatim>\<open>NoSuchKey\<close> (the service raises, or the body does not parse),
  \<open>get_users_from_s3\<close> returns the empty mapping, the same value as for a bucket
  without the object, and shows one notice; when the write fails,
  \<open>save_users_to_s3\<close> returns \<open>False\<close>, shows one notice and leaves the object as it
  was. Both return a value: no exception leaves them.
\<close>

theorem storage_failure_contained:
  assumes "get_fault w = Some e \<or> (get_fault w = None \<and> s3_object w = Some (Undecodable e))"
    and "put_fault w' = Some e'"
  shows "get_users_from_s3 w =
           (Map.empty,
            w\<lparr>requests := requests w @ [GetObject],
              notices := notices w @ [''Error accessing S3: '' @ e]\<rparr>)
    \<and> fst (get_users_from_s3 w) = fst (get_users_from_s3 no_document)
    \<and> save_users_to_s3 m w' =
           (False,
            w'\<lparr>requests := requests w' @ [PutObject (json_dumps m)],
               notices := notices w' @ [''Error saving to S3: '' @ e']\<rparr>)
    \<and> s3_object (snd (save_users_to_s3 m w')) = s3_object w'"
  using assms
  by (auto simp add: store_defs no_document_def)

theorem storage_failure_contained_witness:
  "get_fault service_down = Some ''timeout'' \<and> put_fault service_down = Some ''timeout''
   \<and> fst (get_users_from_s3 service_down) = Map.empty
   \<and> notices (snd (get_users_from_s3 service_down)) = [''Error accessing S3: timeout'']
   \<and> fst (save_users_to_s3 Map.empty service_down) = False
   \<and> notices (snd (save_users_to_s3 Map.empty service_down)) = [''Error saving to S3: timeout'']
   \<and> s3_object (snd (save_users_to_s3 Map.empty service_down)) = s3_object service_down
   \<and> get_fault unreadable_document = None
   \<and> s3_object unreadable_document = Some (Undecodable ''Expecting value'')
   \<and> fst (get_users_from_s3 unreadable_document) = Map.empty
   \<and> notices (snd (get_users_from_s3 unreadable_document)) =
       [''Error accessing S3: Expecting value'']"
proof -
  have down: "get_fault service_down = Some ''timeout''"
    and refused: "put_fault service_down = Some ''timeout''"
    by (simp_all add: service_down_def)
  have unreadable: "get_fault unreadable_document = None"
    "s3_object unreadable_document = Some (Undecodable ''Expecting value'')"
    by (simp_all add: unreadable_document_def)
  show ?thesis
    using down refused unreadable
      storage_failure_contained [OF disjI1 [OF down] refused, of Map.empty]
      storage_failure_contained [OF disjI2 [OF conjI [OF unreadable]] refused, of Map.empty]
    by (simp add: service_down_def unreadable_document_def)
qed

section \<open>The password hash\<close>



section \<open>The store under load and login\<close>

text \<open>
  C9. Idempotent load. A second \<open>get_users_from_s3\<close>, run in the world the first one
  left, returns the same mapping; the first one changed neither the object nor the way
  the service answers.
\<close>

theorem load_idempotent:
  "fst (get_users_from_s3 (snd (get_users_from_s3 w))) = fst (get_users_from_s3 w)
   \<and> s3_object (snd (get_users_from_s3 w)) = s3_object w
   \<and> get_fault (snd (get_users_from_s3 w)) = get_fault w
   \<and> put_fault (snd (get_users_from_s3 w)) = put_fault w"
  by (simp add: load_again load_world)

text \<open>
  C10. \<open>authenticate\<close> leaves the store alone: the object after the call is the object
  before it, and the call sent one retrieval to the service and nothing else.
\<close>

theorem authenticate_frame:
  "s3_object (snd (authenticate u p w)) = s3_object w
   \<and> requests (snd (authenticate u p w)) = requests w @ [GetObject]"
  by (simp add: authenticate_unfold load_world)

end
